theory Spec2Isabelle
  imports Main "HOL-Library.Word"
begin

section \<open>The GAP layer of the nRF51822 BLE port (nRF51Gap.cpp)\<close>

text \<open>
  The file under verification is \<^verbatim>\<open>samples/BLEHeartRate/BLE_nRF51822/nRF51Gap.cpp\<close>.
  Every method of \<^verbatim>\<open>nRF51Gap\<close> checks its arguments, calls one or two functions of
  the SoftDevice (the radio firmware, \<^verbatim>\<open>sd_ble_gap_...\<close>) and returns a \<^verbatim>\<open>ble_error_t\<close>.
  The model passes the object explicitly, takes the SoftDevice as a record of answers,
  and returns, beside the error code and the updated object, the list of SoftDevice
  calls the method issued.
\<close>

subsection \<open>Types of the BLE API\<close>

datatype ble_error_t =
    BLE_ERROR_NONE
  | BLE_ERROR_BUFFER_OVERFLOW
  | BLE_ERROR_NOT_IMPLEMENTED
  | BLE_ERROR_PARAM_OUT_OF_RANGE

text \<open>
  Modelled from the spec: \<^verbatim>\<open>GapAdvertisingParams\<close> (its header is not part of the
  sources at hand). The spec gives the four advertising types and the three fields read
  by \<^verbatim>\<open>getAdvertisingType()\<close>, \<^verbatim>\<open>getInterval()\<close> and \<^verbatim>\<open>getTimeout()\<close>; the two
  numbers are unsigned and only ever compared, so they are naturals.
\<close>

datatype AdvertisingType =
    ADV_CONNECTABLE_UNDIRECTED
  | ADV_CONNECTABLE_DIRECTED
  | ADV_SCANNABLE_UNDIRECTED
  | ADV_NON_CONNECTABLE_UNDIRECTED

record GapAdvertisingParams =
  getAdvertisingType :: AdvertisingType
  getInterval :: nat
  getTimeout :: nat

text \<open>
  Modelled from the spec: \<^verbatim>\<open>GapAdvertisingData\<close> (header not at hand): a byte sequence
  and the 16-bit appearance code carried with it. \<^verbatim>\<open>getPayload()\<close> is the field
  \<open>payload\<close>, \<^verbatim>\<open>getAppearance()\<close> the field \<open>appearance\<close>, \<^verbatim>\<open>getPayloadLen()\<close> the
  number of bytes.
\<close>

record GapAdvertisingData =
  payload :: "8 word list"
  appearance :: "16 word"

definition getPayloadLen :: "GapAdvertisingData \<Rightarrow> nat" where
  "getPayloadLen d = length (payload d)"

text \<open>
  Modelled from the spec: \<^verbatim>\<open>GAP_ADVERTISING_DATA_MAX_PAYLOAD\<close>, the 31 bytes of an
  advertising PDU, and \<^verbatim>\<open>ADDR_LEN\<close>, the 6 bytes of a device address.
\<close>

definition GAP_ADVERTISING_DATA_MAX_PAYLOAD :: nat where
  "GAP_ADVERTISING_DATA_MAX_PAYLOAD = 31"

definition ADDR_LEN :: nat where
  "ADDR_LEN = 6"

text \<open>
  Modelled from the spec: \<^verbatim>\<open>addr_type_t\<close> (declared in a header not at hand), the four
  address types in the spec's order, numbered from 0 as C++ numbers an enumeration. It is
  an unscoped enumeration, held here in four bytes (the size GCC gives an enumeration
  unless told to shorten it). Any bit pattern can arrive in a parameter of the type. In
  an expression C++ promotes an enumeration whose enumerators are 0 to 3 to \<^verbatim>\<open>int\<close>, so
  a comparison reads the four bytes as a signed number (\<open>sint\<close>). A build with one-byte
  enumerations only ever holds the values 0 to 255 of it.
\<close>

type_synonym addr_type_t = "32 word"

definition ADDR_TYPE_PUBLIC :: addr_type_t where
  "ADDR_TYPE_PUBLIC = 0"

definition ADDR_TYPE_RANDOM_STATIC :: addr_type_t where
  "ADDR_TYPE_RANDOM_STATIC = 1"

definition ADDR_TYPE_RANDOM_PRIVATE_RESOLVABLE :: addr_type_t where
  "ADDR_TYPE_RANDOM_PRIVATE_RESOLVABLE = 2"

definition ADDR_TYPE_RANDOM_PRIVATE_NON_RESOLVABLE :: addr_type_t where
  "ADDR_TYPE_RANDOM_PRIVATE_NON_RESOLVABLE = 3"

text \<open>
  Modelled from the spec: \<^verbatim>\<open>DisconnectionReason_t\<close> (header not at hand). The spec
  lists it as RemoteUserTerminated, ConnIntervalUnacceptable and further reasons: the
  two enumerators the \<^verbatim>\<open>switch\<close> of \<^verbatim>\<open>disconnect\<close> names, and any other value of the
  enumeration, tagged by its number.
\<close>

datatype DisconnectionReason_t =
    REMOTE_USER_TERMINATED_CONNECTION
  | CONN_INTERVAL_UNACCEPTABLE
  | OTHER_DISCONNECTION_REASON nat

subsection \<open>Constants of the headers\<close>

text \<open>
  The numeric macros of the SoftDevice and BLE API headers are not defined in the file
  and the spec names them without values. They are parameters of the model: every
  method takes the record \<open>h\<close> of their values, and the theorems hold for all of them.
\<close>

record sdk_headers =
  ERROR_NONE :: "32 word"
  NRF_SUCCESS :: "32 word"
  GAP_ADV_PARAMS_INTERVAL_MIN :: nat
  GAP_ADV_PARAMS_INTERVAL_MIN_NONCON :: nat
  GAP_ADV_PARAMS_INTERVAL_MAX :: nat
  GAP_ADV_PARAMS_TIMEOUT_MAX :: nat
  BLE_GAP_ADV_FP_ANY :: "8 word"
  BLE_GAP_ADDR_CYCLE_MODE_NONE :: "8 word"
  BLE_HCI_REMOTE_USER_TERMINATED_CONNECTION :: "8 word"
  BLE_HCI_CONN_INTERVAL_UNACCEPTABLE :: "8 word"

text \<open>
  One concrete choice, used only to evaluate the model at concrete inputs: the values
  of the S110 SoftDevice and BLE API headers of the time (success is 0, intervals in
  units of 0.625 ms, the HCI status codes 0x13 and 0x3B).
\<close>

definition nrf51_sdk :: sdk_headers where
  "nrf51_sdk =
     \<lparr>ERROR_NONE = 0, NRF_SUCCESS = 0,
      GAP_ADV_PARAMS_INTERVAL_MIN = 0x20,
      GAP_ADV_PARAMS_INTERVAL_MIN_NONCON = 0xA0,
      GAP_ADV_PARAMS_INTERVAL_MAX = 0x4000,
      GAP_ADV_PARAMS_TIMEOUT_MAX = 0x3FFF,
      BLE_GAP_ADV_FP_ANY = 0,
      BLE_GAP_ADDR_CYCLE_MODE_NONE = 0,
      BLE_HCI_REMOTE_USER_TERMINATED_CONNECTION = 0x13,
      BLE_HCI_CONN_INTERVAL_UNACCEPTABLE = 0x3B\<rparr>"

subsection \<open>The object and the SoftDevice\<close>

text \<open>
  \<^verbatim>\<open>state.advertising\<close> and \<^verbatim>\<open>state.connected\<close> are one-bit flags written with 0 and 1;
  \<^verbatim>\<open>m_connectionHandle\<close> is a \<^verbatim>\<open>uint16_t\<close>.
\<close>

record GapState_t =
  advertising :: bool
  connected :: bool

record nRF51Gap =
  state :: GapState_t
  m_connectionHandle :: "16 word"

record ble_gap_addr_t =
  addr_type :: "8 word"
  addr :: "8 word list"

typedecl ble_gap_whitelist_t

text \<open>The record \<^verbatim>\<open>startAdvertising\<close> fills in; a \<^verbatim>\<open>NULL\<close> pointer is \<open>None\<close>.\<close>

record ble_gap_adv_params_t =
  adv_type :: AdvertisingType
  p_peer_addr :: "ble_gap_addr_t option"
  fp :: "8 word"
  p_whitelist :: "ble_gap_whitelist_t option"
  interval :: nat
  timeout :: nat

text \<open>
  The SoftDevice is outside the program. Each of its functions answers with a
  \<^verbatim>\<open>uint32_t\<close> status; \<^verbatim>\<open>sd_ble_gap_appearance_get\<close> also may store a value through
  the pointer it is given. The record fixes the answer to every possible call.
\<close>

record softdevice =
  sd_ble_gap_adv_data_set :: "8 word list \<Rightarrow> nat \<Rightarrow> 8 word list \<Rightarrow> nat \<Rightarrow> 32 word"
  sd_ble_gap_appearance_set :: "16 word \<Rightarrow> 32 word"
  sd_ble_gap_appearance_get :: "32 word \<times> 16 word option"
  sd_ble_gap_adv_start :: "ble_gap_adv_params_t \<Rightarrow> 32 word"
  sd_ble_gap_adv_stop :: "32 word"
  sd_ble_gap_disconnect :: "16 word \<Rightarrow> 8 word \<Rightarrow> 32 word"
  sd_ble_gap_address_set :: "8 word \<Rightarrow> ble_gap_addr_t \<Rightarrow> 32 word"

text \<open>
  A call the method issued: which function with which arguments, the object as it was
  when the call was made, and the status the SoftDevice answered.
\<close>

datatype sd_call =
    ADV_DATA_SET "8 word list" nat "8 word list" nat
  | APPEARANCE_SET "16 word"
  | APPEARANCE_GET
  | ADV_START ble_gap_adv_params_t
  | ADV_STOP
  | DISCONNECT "16 word" "8 word"
  | ADDRESS_SET "8 word" ble_gap_addr_t

record sd_event =
  seen :: nRF51Gap
  call :: sd_call
  status :: "32 word"

text \<open>What a method leaves behind: its return value, the object, the calls in order.\<close>

record outcome =
  ret :: ble_error_t
  self :: nRF51Gap
  trace :: "sd_event list"

subsection \<open>The methods\<close>

text \<open>
  Modelled from the spec: the macros \<^verbatim>\<open>ASSERT(condition, value)\<close> and
  \<^verbatim>\<open>ASSERT_INT(expected, actual, value)\<close> (defined in \<^verbatim>\<open>common/\<close>, not at hand). When
  the condition is false, or the actual status differs from the expected one, the
  enclosing method returns \<open>value\<close> at once; otherwise it goes on. In the model each
  use is the \<open>if\<close> that returns early.
\<close>

text \<open>\<^verbatim>\<open>nRF51Gap::setAdvertisingData\<close>, lines 61 to 105.\<close>

definition setAdvertisingData ::
  "sdk_headers \<Rightarrow> softdevice \<Rightarrow> nRF51Gap \<Rightarrow> GapAdvertisingData \<Rightarrow> GapAdvertisingData \<Rightarrow> outcome"
where
  "setAdvertisingData h sd this advData scanResponse =
    (if getPayloadLen advData > GAP_ADVERTISING_DATA_MAX_PAYLOAD then
       \<lparr>ret = BLE_ERROR_BUFFER_OVERFLOW, self = this, trace = []\<rparr>
     else if getPayloadLen advData = 0 then
       \<lparr>ret = BLE_ERROR_PARAM_OUT_OF_RANGE, self = this, trace = []\<rparr>
     else
       let rc1 = sd_ble_gap_adv_data_set sd (payload advData) (getPayloadLen advData)
                   (payload scanResponse) (getPayloadLen scanResponse);
           e1 = \<lparr>seen = this,
                 call = ADV_DATA_SET (payload advData) (getPayloadLen advData)
                          (payload scanResponse) (getPayloadLen scanResponse),
                 status = rc1\<rparr>
       in if \<not> (ERROR_NONE h = rc1) then
            \<lparr>ret = BLE_ERROR_PARAM_OUT_OF_RANGE, self = this, trace = [e1]\<rparr>
          else
            let rc2 = sd_ble_gap_appearance_set sd (appearance advData);
                e2 = \<lparr>seen = this, call = APPEARANCE_SET (appearance advData), status = rc2\<rparr>
            in if \<not> (ERROR_NONE h = rc2) then
                 \<lparr>ret = BLE_ERROR_PARAM_OUT_OF_RANGE, self = this, trace = [e1, e2]\<rparr>
               else
                 \<lparr>ret = BLE_ERROR_NONE, self = this, trace = [e1, e2]\<rparr>)"

text \<open>\<^verbatim>\<open>nRF51Gap::startAdvertising\<close>, lines 126 to 176.\<close>

definition startAdvertising ::
  "sdk_headers \<Rightarrow> softdevice \<Rightarrow> nRF51Gap \<Rightarrow> GapAdvertisingParams \<Rightarrow> outcome"
where
  "startAdvertising h sd this params =
    (if getAdvertisingType params = ADV_CONNECTABLE_DIRECTED then
       \<lparr>ret = BLE_ERROR_NOT_IMPLEMENTED, self = this, trace = []\<rparr>
     else if (if getAdvertisingType params = ADV_NON_CONNECTABLE_UNDIRECTED then
                getInterval params < GAP_ADV_PARAMS_INTERVAL_MIN_NONCON h \<or>
                getInterval params > GAP_ADV_PARAMS_INTERVAL_MAX h
              else
                getInterval params < GAP_ADV_PARAMS_INTERVAL_MIN h \<or>
                getInterval params > GAP_ADV_PARAMS_INTERVAL_MAX h) then
       \<lparr>ret = BLE_ERROR_PARAM_OUT_OF_RANGE, self = this, trace = []\<rparr>
     else if getAdvertisingType params = ADV_CONNECTABLE_DIRECTED \<and> getTimeout params \<noteq> 0 then
       \<lparr>ret = BLE_ERROR_PARAM_OUT_OF_RANGE, self = this, trace = []\<rparr>
     else if getAdvertisingType params \<noteq> ADV_CONNECTABLE_DIRECTED \<and>
             getTimeout params > GAP_ADV_PARAMS_TIMEOUT_MAX h then
       \<lparr>ret = BLE_ERROR_PARAM_OUT_OF_RANGE, self = this, trace = []\<rparr>
     else
       let adv_para = \<lparr>adv_type = getAdvertisingType params,
                       p_peer_addr = None,
                       fp = BLE_GAP_ADV_FP_ANY h,
                       p_whitelist = None,
                       interval = getInterval params,
                       timeout = getTimeout params\<rparr>;
           rc = sd_ble_gap_adv_start sd adv_para;
           e = \<lparr>seen = this, call = ADV_START adv_para, status = rc\<rparr>
       in if \<not> (ERROR_NONE h = rc) then
            \<lparr>ret = BLE_ERROR_PARAM_OUT_OF_RANGE, self = this, trace = [e]\<rparr>
          else
            \<lparr>ret = BLE_ERROR_NONE,
             self = this\<lparr>state := (state this)\<lparr>advertising := True\<rparr>\<rparr>,
             trace = [e]\<rparr>)"

text \<open>\<^verbatim>\<open>nRF51Gap::stopAdvertising\<close>, lines 194 to 202.\<close>

definition stopAdvertising :: "sdk_headers \<Rightarrow> softdevice \<Rightarrow> nRF51Gap \<Rightarrow> outcome" where
  "stopAdvertising h sd this =
    (let rc = sd_ble_gap_adv_stop sd;
         e = \<lparr>seen = this, call = ADV_STOP, status = rc\<rparr>
     in if \<not> (ERROR_NONE h = rc) then
          \<lparr>ret = BLE_ERROR_PARAM_OUT_OF_RANGE, self = this, trace = [e]\<rparr>
        else
          \<lparr>ret = BLE_ERROR_NONE,
           self = this\<lparr>state := (state this)\<lparr>advertising := False\<rparr>\<rparr>,
           trace = [e]\<rparr>)"

text \<open>
  \<^verbatim>\<open>nRF51Gap::disconnect\<close>, lines 220 to 239. The two flags are cleared first; the
  \<^verbatim>\<open>switch\<close> has two cases and no default, so any other reason keeps the initial code.
\<close>

definition disconnect ::
  "sdk_headers \<Rightarrow> softdevice \<Rightarrow> nRF51Gap \<Rightarrow> DisconnectionReason_t \<Rightarrow> outcome"
where
  "disconnect h sd this reason =
    (let this1 = this\<lparr>state := (state this)\<lparr>advertising := False\<rparr>\<rparr>;
         this2 = this1\<lparr>state := (state this1)\<lparr>connected := False\<rparr>\<rparr>;
         code0 = BLE_HCI_REMOTE_USER_TERMINATED_CONNECTION h;
         code = (case reason of
                   REMOTE_USER_TERMINATED_CONNECTION \<Rightarrow> BLE_HCI_REMOTE_USER_TERMINATED_CONNECTION h
                 | CONN_INTERVAL_UNACCEPTABLE \<Rightarrow> BLE_HCI_CONN_INTERVAL_UNACCEPTABLE h
                 | OTHER_DISCONNECTION_REASON n \<Rightarrow> code0);
         rc = sd_ble_gap_disconnect sd (m_connectionHandle this2) code;
         e = \<lparr>seen = this2, call = DISCONNECT (m_connectionHandle this2) code, status = rc\<rparr>
     in if ERROR_NONE h \<noteq> rc then
          \<lparr>ret = BLE_ERROR_PARAM_OUT_OF_RANGE, self = this2, trace = [e]\<rparr>
        else
          \<lparr>ret = BLE_ERROR_NONE, self = this2, trace = [e]\<rparr>)"

text \<open>
  \<^verbatim>\<open>nRF51Gap::setAddress\<close>, lines 307 to 320. The guard compares two values of the
  enumeration, both promoted to \<^verbatim>\<open>int\<close>: a signed comparison. \<^verbatim>\<open>dev_addr.addr_type\<close>
  is a byte, so the assignment keeps the low eight bits of the type (\<open>ucast\<close>);
  \<^verbatim>\<open>memcpy\<close> copies \<^verbatim>\<open>ADDR_LEN\<close> bytes of the array.
\<close>

definition setAddress ::
  "sdk_headers \<Rightarrow> softdevice \<Rightarrow> nRF51Gap \<Rightarrow> addr_type_t \<Rightarrow> 8 word list \<Rightarrow> outcome"
where
  "setAddress h sd this type address =
    (if sint type > sint ADDR_TYPE_RANDOM_PRIVATE_NON_RESOLVABLE then
       \<lparr>ret = BLE_ERROR_PARAM_OUT_OF_RANGE, self = this, trace = []\<rparr>
     else
       let dev_addr = \<lparr>addr_type = ucast type, addr = take ADDR_LEN address\<rparr>;
           rc = sd_ble_gap_address_set sd (BLE_GAP_ADDR_CYCLE_MODE_NONE h) dev_addr;
           e = \<lparr>seen = this,
                call = ADDRESS_SET (BLE_GAP_ADDR_CYCLE_MODE_NONE h) dev_addr,
                status = rc\<rparr>
       in if ERROR_NONE h \<noteq> rc then
            \<lparr>ret = BLE_ERROR_PARAM_OUT_OF_RANGE, self = this, trace = [e]\<rparr>
          else
            \<lparr>ret = BLE_ERROR_NONE, self = this, trace = [e]\<rparr>)"

text \<open>\<^verbatim>\<open>nRF51Gap::setAppearance\<close>, lines 359 to 366.\<close>

definition setAppearance :: "sdk_headers \<Rightarrow> softdevice \<Rightarrow> nRF51Gap \<Rightarrow> 16 word \<Rightarrow> outcome" where
  "setAppearance h sd this appearance_code =
    (let rc = sd_ble_gap_appearance_set sd appearance_code;
         e = \<lparr>seen = this, call = APPEARANCE_SET appearance_code, status = rc\<rparr>
     in if rc = NRF_SUCCESS h then
          \<lparr>ret = BLE_ERROR_NONE, self = this, trace = [e]\<rparr>
        else
          \<lparr>ret = BLE_ERROR_PARAM_OUT_OF_RANGE, self = this, trace = [e]\<rparr>)"

text \<open>
  \<^verbatim>\<open>nRF51Gap::getAppearance\<close>, lines 368 to 375. The condition of the \<^verbatim>\<open>if\<close> is the
  status itself, which C++ takes as true when it is not 0. The second component is what
  the SoftDevice stored through \<^verbatim>\<open>appearanceP\<close>, if anything.
\<close>

definition getAppearance ::
  "sdk_headers \<Rightarrow> softdevice \<Rightarrow> nRF51Gap \<Rightarrow> outcome \<times> 16 word option"
where
  "getAppearance h sd this =
    (let rc = fst (sd_ble_gap_appearance_get sd);
         appearanceP = snd (sd_ble_gap_appearance_get sd);
         e = \<lparr>seen = this, call = APPEARANCE_GET, status = rc\<rparr>
     in if rc \<noteq> 0 then
          (\<lparr>ret = BLE_ERROR_NONE, self = this, trace = [e]\<rparr>, appearanceP)
        else
          (\<lparr>ret = BLE_ERROR_PARAM_OUT_OF_RANGE, self = this, trace = [e]\<rparr>, appearanceP))"

subsection \<open>Concrete inputs\<close>

text \<open>
  A SoftDevice that answers every call with the same status, an object with given flags,
  and a three-byte advertising payload (one flags field) with an appearance code. They
  serve to run the methods on concrete inputs.
\<close>

definition sd_all :: "32 word \<Rightarrow> softdevice" where
  "sd_all rc =
     \<lparr>sd_ble_gap_adv_data_set = (\<lambda>adv advLen sr srLen. rc),
      sd_ble_gap_appearance_set = (\<lambda>a. rc),
      sd_ble_gap_appearance_get = (rc, None),
      sd_ble_gap_adv_start = (\<lambda>p. rc),
      sd_ble_gap_adv_stop = rc,
      sd_ble_gap_disconnect = (\<lambda>handle code. rc),
      sd_ble_gap_address_set = (\<lambda>mode a. rc)\<rparr>"

definition gap_at :: "bool \<Rightarrow> bool \<Rightarrow> nRF51Gap" where
  "gap_at a c = \<lparr>state = \<lparr>advertising = a, connected = c\<rparr>, m_connectionHandle = 1\<rparr>"

definition flags_only :: GapAdvertisingData where
  "flags_only = \<lparr>payload = [2, 1, 6], appearance = 0x0341\<rparr>"

section \<open>Advertising state\<close>

text \<open>
  What \<^verbatim>\<open>startAdvertising\<close> and \<^verbatim>\<open>stopAdvertising\<close> leave in the object and return, as
  functions of the parameters and of the answer of the SoftDevice.
\<close>

lemma startAdvertising_self:
  "self (startAdvertising h sd this params) =
     (if (getAdvertisingType params \<noteq> ADV_CONNECTABLE_DIRECTED
           \<and> (if getAdvertisingType params = ADV_NON_CONNECTABLE_UNDIRECTED
                then GAP_ADV_PARAMS_INTERVAL_MIN_NONCON h else GAP_ADV_PARAMS_INTERVAL_MIN h)
               \<le> getInterval params
           \<and> getInterval params \<le> GAP_ADV_PARAMS_INTERVAL_MAX h
           \<and> getTimeout params \<le> GAP_ADV_PARAMS_TIMEOUT_MAX h)
         \<and> sd_ble_gap_adv_start sd
              \<lparr>adv_type = getAdvertisingType params, p_peer_addr = None,
               fp = BLE_GAP_ADV_FP_ANY h, p_whitelist = None,
               interval = getInterval params, timeout = getTimeout params\<rparr> = ERROR_NONE h
      then this\<lparr>state := (state this)\<lparr>advertising := True\<rparr>\<rparr> else this)"
  unfolding startAdvertising_def Let_def
  by (simp add: not_less eq_commute [of "ERROR_NONE h"])

lemma startAdvertising_ret:
  "(ret (startAdvertising h sd this params) = BLE_ERROR_NONE) =
     ((getAdvertisingType params \<noteq> ADV_CONNECTABLE_DIRECTED
           \<and> (if getAdvertisingType params = ADV_NON_CONNECTABLE_UNDIRECTED
                then GAP_ADV_PARAMS_INTERVAL_MIN_NONCON h else GAP_ADV_PARAMS_INTERVAL_MIN h)
               \<le> getInterval params
           \<and> getInterval params \<le> GAP_ADV_PARAMS_INTERVAL_MAX h
           \<and> getTimeout params \<le> GAP_ADV_PARAMS_TIMEOUT_MAX h)
         \<and> sd_ble_gap_adv_start sd
              \<lparr>adv_type = getAdvertisingType params, p_peer_addr = None,
               fp = BLE_GAP_ADV_FP_ANY h, p_whitelist = None,
               interval = getInterval params, timeout = getTimeout params\<rparr> = ERROR_NONE h)"
  unfolding startAdvertising_def Let_def
  by (simp add: not_less eq_commute [of "ERROR_NONE h"])

lemma startAdvertising_status:
  "(ret (startAdvertising h sd this params) = BLE_ERROR_NONE) =
     (map status (trace (startAdvertising h sd this params)) = [ERROR_NONE h])"
  unfolding startAdvertising_def Let_def
  by (simp add: eq_commute [of "ERROR_NONE h"])


lemma stopAdvertising_self:
  "self (stopAdvertising h sd this) =
     (if sd_ble_gap_adv_stop sd = ERROR_NONE h
      then this\<lparr>state := (state this)\<lparr>advertising := False\<rparr>\<rparr> else this)"
  unfolding stopAdvertising_def Let_def
  by (simp add: eq_commute [of "ERROR_NONE h"])

lemma stopAdvertising_ret:
  "(ret (stopAdvertising h sd this) = BLE_ERROR_NONE) = (sd_ble_gap_adv_stop sd = ERROR_NONE h)"
  unfolding stopAdvertising_def Let_def
  by (simp add: eq_commute [of "ERROR_NONE h"])

lemma stopAdvertising_status:
  "(ret (stopAdvertising h sd this) = BLE_ERROR_NONE) =
     (map status (trace (stopAdvertising h sd this)) = [ERROR_NONE h])"
  unfolding stopAdvertising_def Let_def
  by (simp add: eq_commute [of "ERROR_NONE h"])

text \<open>
  Claim C1. Call the parameters accepted when the type is not
  \<^verbatim>\<open>ADV_CONNECTABLE_DIRECTED\<close>, the interval lies between the lower bound of the type
  and \<^verbatim>\<open>GAP_ADV_PARAMS_INTERVAL_MAX\<close>, and the timeout is at most
  \<^verbatim>\<open>GAP_ADV_PARAMS_TIMEOUT_MAX\<close>. \<^verbatim>\<open>startAdvertising\<close> sets \<open>advertising\<close> and returns
  \<^verbatim>\<open>BLE_ERROR_NONE\<close> exactly when the parameters are accepted and the SoftDevice
  answers \<^verbatim>\<open>ERROR_NONE\<close> to \<^verbatim>\<open>sd_ble_gap_adv_start\<close> with the record built from them;
  in every other case, a refused parameter or a refusing SoftDevice, the object is left
  as it was. \<^verbatim>\<open>stopAdvertising\<close> clears the flag and returns \<^verbatim>\<open>BLE_ERROR_NONE\<close> exactly
  when \<^verbatim>\<open>sd_ble_gap_adv_stop\<close> answers \<^verbatim>\<open>ERROR_NONE\<close>, and otherwise leaves the object
  as it was.
\<close>

theorem advertising_flag_follows_success:
  "(let accepted =
          (getAdvertisingType params \<noteq> ADV_CONNECTABLE_DIRECTED
           \<and> (if getAdvertisingType params = ADV_NON_CONNECTABLE_UNDIRECTED
                then GAP_ADV_PARAMS_INTERVAL_MIN_NONCON h else GAP_ADV_PARAMS_INTERVAL_MIN h)
               \<le> getInterval params
           \<and> getInterval params \<le> GAP_ADV_PARAMS_INTERVAL_MAX h
           \<and> getTimeout params \<le> GAP_ADV_PARAMS_TIMEOUT_MAX h);
        adv_para = \<lparr>adv_type = getAdvertisingType params, p_peer_addr = None,
                     fp = BLE_GAP_ADV_FP_ANY h, p_whitelist = None,
                     interval = getInterval params, timeout = getTimeout params\<rparr>;
        started = (accepted \<and> sd_ble_gap_adv_start sd adv_para = ERROR_NONE h)
    in self (startAdvertising h sd this params) =
         (if started then this\<lparr>state := (state this)\<lparr>advertising := True\<rparr>\<rparr> else this)
     \<and> (ret (startAdvertising h sd this params) = BLE_ERROR_NONE \<longleftrightarrow> started)
     \<and> (ret (startAdvertising h sd this params) = BLE_ERROR_NONE
          \<longleftrightarrow> map status (trace (startAdvertising h sd this params)) = [ERROR_NONE h]))
   \<and> self (stopAdvertising h sd this) =
       (if sd_ble_gap_adv_stop sd = ERROR_NONE h
        then this\<lparr>state := (state this)\<lparr>advertising := False\<rparr>\<rparr> else this)
   \<and> (ret (stopAdvertising h sd this) = BLE_ERROR_NONE
        \<longleftrightarrow> sd_ble_gap_adv_stop sd = ERROR_NONE h)
   \<and> (ret (stopAdvertising h sd this) = BLE_ERROR_NONE
        \<longleftrightarrow> map status (trace (stopAdvertising h sd this)) = [ERROR_NONE h])"
  unfolding Let_def
  by (intro conjI startAdvertising_self startAdvertising_ret startAdvertising_status
        stopAdvertising_self stopAdvertising_ret stopAdvertising_status)


section \<open>Advertising payload\<close>

text \<open>
  Claim C3. For a primary payload of \<open>L\<close> bytes, \<^verbatim>\<open>setAdvertisingData\<close> returns
  \<^verbatim>\<open>BLE_ERROR_BUFFER_OVERFLOW\<close> exactly when \<open>L > 31\<close>, returns
  \<^verbatim>\<open>BLE_ERROR_PARAM_OUT_OF_RANGE\<close> without having called the SoftDevice exactly when
  \<open>L = 0\<close>, and goes on to the SoftDevice exactly when \<open>1 \<le> L \<le> 31\<close>.
\<close>

theorem setAdvertisingData_payload_length:
  "(ret (setAdvertisingData h sd this advData scanResponse) = BLE_ERROR_BUFFER_OVERFLOW
      \<longleftrightarrow> length (payload advData) > 31)
   \<and> (ret (setAdvertisingData h sd this advData scanResponse) = BLE_ERROR_PARAM_OUT_OF_RANGE
       \<and> trace (setAdvertisingData h sd this advData scanResponse) = []
      \<longleftrightarrow> length (payload advData) = 0)
   \<and> (trace (setAdvertisingData h sd this advData scanResponse) \<noteq> []
      \<longleftrightarrow> 1 \<le> length (payload advData) \<and> length (payload advData) \<le> 31)"
  by (auto simp: setAdvertisingData_def Let_def getPayloadLen_def
        GAP_ADVERTISING_DATA_MAX_PAYLOAD_def Suc_le_eq)

text \<open>
  Claim C6, as the code has it. With a primary payload of 1 to 31 bytes, the two buffers
  go to the SoftDevice in one \<^verbatim>\<open>sd_ble_gap_adv_data_set\<close> call, and the appearance of
  \<open>advData\<close> in a second call, \<^verbatim>\<open>sd_ble_gap_appearance_set\<close>, made only when the first
  answered \<^verbatim>\<open>ERROR_NONE\<close>. The method returns \<^verbatim>\<open>BLE_ERROR_PARAM_OUT_OF_RANGE\<close> when
  either call answers otherwise, and the object is never changed.
\<close>

theorem setAdvertisingData_forwards_in_two_calls:
  "0 < getPayloadLen advData \<Longrightarrow> getPayloadLen advData \<le> GAP_ADVERTISING_DATA_MAX_PAYLOAD \<Longrightarrow>
   (let out = setAdvertisingData h sd this advData scanResponse;
        adv_data_set = ADV_DATA_SET (payload advData) (getPayloadLen advData)
                         (payload scanResponse) (getPayloadLen scanResponse);
        rc1 = sd_ble_gap_adv_data_set sd (payload advData) (getPayloadLen advData)
                (payload scanResponse) (getPayloadLen scanResponse);
        rc2 = sd_ble_gap_appearance_set sd (appearance advData)
    in self out = this
     \<and> map call (trace out) =
         (if rc1 = ERROR_NONE h then [adv_data_set, APPEARANCE_SET (appearance advData)]
          else [adv_data_set])
     \<and> map status (trace out) = (if rc1 = ERROR_NONE h then [rc1, rc2] else [rc1])
     \<and> ret out = (if rc1 = ERROR_NONE h \<and> rc2 = ERROR_NONE h then BLE_ERROR_NONE
                  else BLE_ERROR_PARAM_OUT_OF_RANGE))"
  by (auto simp: setAdvertisingData_def Let_def)

text \<open>
  The theorem at a concrete input: the three-byte payload, an empty scan response and a
  SoftDevice that accepts everything.
\<close>

theorem setAdvertisingData_forwards_in_two_calls_witness:
  "0 < getPayloadLen flags_only
   \<and> getPayloadLen flags_only \<le> GAP_ADVERTISING_DATA_MAX_PAYLOAD
   \<and> self (setAdvertisingData nrf51_sdk (sd_all 0) (gap_at True False) flags_only
        \<lparr>payload = [], appearance = 0\<rparr>) = gap_at True False
   \<and> map call (trace (setAdvertisingData nrf51_sdk (sd_all 0) (gap_at True False) flags_only
        \<lparr>payload = [], appearance = 0\<rparr>))
     = [ADV_DATA_SET [2, 1, 6] 3 [] 0, APPEARANCE_SET 0x0341]
   \<and> ret (setAdvertisingData nrf51_sdk (sd_all 0) (gap_at True False) flags_only
        \<lparr>payload = [], appearance = 0\<rparr>) = BLE_ERROR_NONE"
proof -
  have pos: "0 < getPayloadLen flags_only"
    by (simp add: getPayloadLen_def flags_only_def)
  have le: "getPayloadLen flags_only \<le> GAP_ADVERTISING_DATA_MAX_PAYLOAD"
    by (simp add: getPayloadLen_def flags_only_def GAP_ADVERTISING_DATA_MAX_PAYLOAD_def)
  show ?thesis
    using pos le
      setAdvertisingData_forwards_in_two_calls [OF pos le, where h = nrf51_sdk
        and sd = "sd_all 0" and this = "gap_at True False"
        and scanResponse = "\<lparr>payload = [], appearance = 0\<rparr>"]
    by (simp add: Let_def sd_all_def nrf51_sdk_def getPayloadLen_def flags_only_def)
qed

text \<open>
  Claim C6 as stated fails: the forwarding is not atomic. When the SoftDevice accepts the
  advertising data and then refuses the appearance (status 7), the method returns
  \<^verbatim>\<open>BLE_ERROR_PARAM_OUT_OF_RANGE\<close> although the first call had answered
  \<^verbatim>\<open>ERROR_NONE\<close>: the SoftDevice has taken the new buffers and kept the old appearance.
\<close>

theorem setAdvertisingData_partial_commit:
  "ret (setAdvertisingData nrf51_sdk ((sd_all 0)\<lparr>sd_ble_gap_appearance_set := (\<lambda>a. 7)\<rparr>)
          (gap_at False False) flags_only \<lparr>payload = [], appearance = 0\<rparr>)
     = BLE_ERROR_PARAM_OUT_OF_RANGE
   \<and> map (\<lambda>e. (call e, status e = ERROR_NONE nrf51_sdk))
       (trace (setAdvertisingData nrf51_sdk ((sd_all 0)\<lparr>sd_ble_gap_appearance_set := (\<lambda>a. 7)\<rparr>)
          (gap_at False False) flags_only \<lparr>payload = [], appearance = 0\<rparr>))
     = [(ADV_DATA_SET [2, 1, 6] 3 [] 0, True), (APPEARANCE_SET 0x0341, False)]"
  by (simp add: setAdvertisingData_def nrf51_sdk_def sd_all_def flags_only_def getPayloadLen_def
        GAP_ADVERTISING_DATA_MAX_PAYLOAD_def Let_def)

text \<open>
  The scan response is handed on unexamined: with a primary payload of 1 to 31 bytes, the
  first SoftDevice call carries the scan response and its length as they are, the method
  never returns \<^verbatim>\<open>BLE_ERROR_BUFFER_OVERFLOW\<close>, and it returns \<^verbatim>\<open>BLE_ERROR_NONE\<close>
  exactly when both SoftDevice calls answered \<^verbatim>\<open>ERROR_NONE\<close>.
\<close>

lemma setAdvertisingData_scanResponse_handed_on:
  "0 < getPayloadLen advData \<Longrightarrow> getPayloadLen advData \<le> GAP_ADVERTISING_DATA_MAX_PAYLOAD \<Longrightarrow>
   map call (take 1 (trace (setAdvertisingData h sd this advData scanResponse))) =
     [ADV_DATA_SET (payload advData) (getPayloadLen advData)
        (payload scanResponse) (length (payload scanResponse))]
   \<and> ret (setAdvertisingData h sd this advData scanResponse) \<noteq> BLE_ERROR_BUFFER_OVERFLOW
   \<and> (ret (setAdvertisingData h sd this advData scanResponse) = BLE_ERROR_NONE
        \<longleftrightarrow> map status (trace (setAdvertisingData h sd this advData scanResponse))
             = [ERROR_NONE h, ERROR_NONE h])"
  by (auto simp: setAdvertisingData_def Let_def getPayloadLen_def)

text \<open>
  Claim C7 says a scan response longer than 31 bytes is rejected. The code does not do
  so: under the comment \<^verbatim>\<open>Check the scan response payload limits\<close> the check is commented
  out, although the description of \<^verbatim>\<open>BLE_ERROR_BUFFER_OVERFLOW\<close> above the method says
  that all advertising payloads must be at most 31 bytes and the primary payload is held
  to that. With the three-byte primary payload, a scan response of 32 bytes and a
  SoftDevice that accepts, the method returns \<^verbatim>\<open>BLE_ERROR_NONE\<close> and the 32 bytes have
  been handed to \<^verbatim>\<open>sd_ble_gap_adv_data_set\<close>.
\<close>

theorem setAdvertisingData_accepts_long_scanResponse:
  "ret (setAdvertisingData nrf51_sdk (sd_all 0) (gap_at False False) flags_only
          \<lparr>payload = replicate 32 0, appearance = 0\<rparr>) = BLE_ERROR_NONE
   \<and> map call (trace (setAdvertisingData nrf51_sdk (sd_all 0) (gap_at False False) flags_only
          \<lparr>payload = replicate 32 0, appearance = 0\<rparr>))
     = [ADV_DATA_SET [2, 1, 6] 3 (replicate 32 0) 32, APPEARANCE_SET 0x0341]"
  by (simp add: setAdvertisingData_def nrf51_sdk_def sd_all_def flags_only_def getPayloadLen_def
        GAP_ADVERTISING_DATA_MAX_PAYLOAD_def Let_def)

section \<open>Advertising parameters\<close>

text \<open>
  Claim C4, as the code has it. For a type other than \<^verbatim>\<open>ADV_CONNECTABLE_DIRECTED\<close>,
  \<^verbatim>\<open>startAdvertising\<close> returns \<^verbatim>\<open>BLE_ERROR_PARAM_OUT_OF_RANGE\<close> from its checks (that
  is, without having called the SoftDevice) exactly when the interval is below the lower
  bound of the type (\<^verbatim>\<open>GAP_ADV_PARAMS_INTERVAL_MIN_NONCON\<close> for
  \<^verbatim>\<open>ADV_NON_CONNECTABLE_UNDIRECTED\<close>, \<^verbatim>\<open>GAP_ADV_PARAMS_INTERVAL_MIN\<close> otherwise), or
  above \<^verbatim>\<open>GAP_ADV_PARAMS_INTERVAL_MAX\<close>, or the timeout is above
  \<^verbatim>\<open>GAP_ADV_PARAMS_TIMEOUT_MAX\<close>. Where the headers make the non-connectable minimum
  the greater one, the general minimum itself is refused for the non-connectable type.
\<close>

theorem startAdvertising_checks_reject_iff:
  "getAdvertisingType params \<noteq> ADV_CONNECTABLE_DIRECTED \<Longrightarrow>
   ((ret (startAdvertising h sd this params) = BLE_ERROR_PARAM_OUT_OF_RANGE
        \<and> trace (startAdvertising h sd this params) = [])
     \<longleftrightarrow>
     (getInterval params <
        (if getAdvertisingType params = ADV_NON_CONNECTABLE_UNDIRECTED
         then GAP_ADV_PARAMS_INTERVAL_MIN_NONCON h else GAP_ADV_PARAMS_INTERVAL_MIN h)
      \<or> getInterval params > GAP_ADV_PARAMS_INTERVAL_MAX h
      \<or> getTimeout params > GAP_ADV_PARAMS_TIMEOUT_MAX h))
   \<and> (GAP_ADV_PARAMS_INTERVAL_MIN h < GAP_ADV_PARAMS_INTERVAL_MIN_NONCON h \<longrightarrow>
        startAdvertising h sd this
          \<lparr>getAdvertisingType = ADV_NON_CONNECTABLE_UNDIRECTED,
           getInterval = GAP_ADV_PARAMS_INTERVAL_MIN h, getTimeout = tmo\<rparr>
        = \<lparr>ret = BLE_ERROR_PARAM_OUT_OF_RANGE, self = this, trace = []\<rparr>)"
  by (auto simp: startAdvertising_def Let_def)

text \<open>
  The theorem at a concrete input: a non-connectable advertisement one unit below its
  minimum interval is refused by the checks, and so is one at the general minimum.
\<close>

theorem startAdvertising_checks_reject_iff_witness:
  "getAdvertisingType
     \<lparr>getAdvertisingType = ADV_NON_CONNECTABLE_UNDIRECTED, getInterval = 0x9F, getTimeout = 0\<rparr>
     \<noteq> ADV_CONNECTABLE_DIRECTED
   \<and> GAP_ADV_PARAMS_INTERVAL_MIN nrf51_sdk < GAP_ADV_PARAMS_INTERVAL_MIN_NONCON nrf51_sdk
   \<and> ret (startAdvertising nrf51_sdk (sd_all 0) (gap_at False False)
        \<lparr>getAdvertisingType = ADV_NON_CONNECTABLE_UNDIRECTED, getInterval = 0x9F, getTimeout = 0\<rparr>)
     = BLE_ERROR_PARAM_OUT_OF_RANGE
   \<and> trace (startAdvertising nrf51_sdk (sd_all 0) (gap_at False False)
        \<lparr>getAdvertisingType = ADV_NON_CONNECTABLE_UNDIRECTED, getInterval = 0x9F, getTimeout = 0\<rparr>)
     = []
   \<and> ret (startAdvertising nrf51_sdk (sd_all 0) (gap_at False False)
        \<lparr>getAdvertisingType = ADV_NON_CONNECTABLE_UNDIRECTED, getInterval = 0x20, getTimeout = 0\<rparr>)
     = BLE_ERROR_PARAM_OUT_OF_RANGE"
proof -
  have ty: "getAdvertisingType
     \<lparr>getAdvertisingType = ADV_NON_CONNECTABLE_UNDIRECTED, getInterval = 0x9F, getTimeout = 0\<rparr>
     \<noteq> ADV_CONNECTABLE_DIRECTED"
    by simp
  have lt: "GAP_ADV_PARAMS_INTERVAL_MIN nrf51_sdk < GAP_ADV_PARAMS_INTERVAL_MIN_NONCON nrf51_sdk"
    by (simp add: nrf51_sdk_def)
  have min: "GAP_ADV_PARAMS_INTERVAL_MIN nrf51_sdk = 0x20"
    by (simp add: nrf51_sdk_def)
  have noncon: "GAP_ADV_PARAMS_INTERVAL_MIN_NONCON nrf51_sdk = 0xA0"
    by (simp add: nrf51_sdk_def)
  show ?thesis
    using ty lt min noncon
      startAdvertising_checks_reject_iff [OF ty, where h = nrf51_sdk and sd = "sd_all 0"
        and this = "gap_at False False" and tmo = 0]
    by simp
qed

text \<open>
  Claim C4 as stated fails: the interval is not the only parameter the checks refuse
  with \<^verbatim>\<open>BLE_ERROR_PARAM_OUT_OF_RANGE\<close>. A connectable undirected advertisement whose
  interval is the minimum, inside the bound, is refused before any SoftDevice call when
  its timeout is one above \<^verbatim>\<open>GAP_ADV_PARAMS_TIMEOUT_MAX\<close>.
\<close>

theorem startAdvertising_rejects_timeout_with_interval_in_bound:
  "ret (startAdvertising nrf51_sdk (sd_all 0) (gap_at False False)
         \<lparr>getAdvertisingType = ADV_CONNECTABLE_UNDIRECTED, getInterval = 0x20, getTimeout = 0x4000\<rparr>)
     = BLE_ERROR_PARAM_OUT_OF_RANGE
   \<and> trace (startAdvertising nrf51_sdk (sd_all 0) (gap_at False False)
         \<lparr>getAdvertisingType = ADV_CONNECTABLE_UNDIRECTED, getInterval = 0x20, getTimeout = 0x4000\<rparr>)
     = []
   \<and> GAP_ADV_PARAMS_INTERVAL_MIN nrf51_sdk \<le> 0x20
   \<and> 0x20 \<le> GAP_ADV_PARAMS_INTERVAL_MAX nrf51_sdk"
  by (simp add: startAdvertising_def nrf51_sdk_def)

text \<open>
  Claim C5. For the type \<^verbatim>\<open>ADV_CONNECTABLE_DIRECTED\<close>, \<^verbatim>\<open>startAdvertising\<close> returns
  \<^verbatim>\<open>BLE_ERROR_NOT_IMPLEMENTED\<close> for every interval and every timeout, with the object
  unchanged and no SoftDevice call: no later check has a say.
\<close>

theorem startAdvertising_directed_not_implemented:
  "startAdvertising h sd this
     \<lparr>getAdvertisingType = ADV_CONNECTABLE_DIRECTED, getInterval = iv, getTimeout = tmo\<rparr>
   = \<lparr>ret = BLE_ERROR_NOT_IMPLEMENTED, self = this, trace = []\<rparr>"
  by (simp add: startAdvertising_def)

section \<open>Disconnection reason\<close>

text \<open>
  Claim C10. \<^verbatim>\<open>disconnect\<close> hands \<^verbatim>\<open>sd_ble_gap_disconnect\<close> the connection handle
  and a code: \<^verbatim>\<open>BLE_HCI_REMOTE_USER_TERMINATED_CONNECTION\<close> for the reason of that name,
  \<^verbatim>\<open>BLE_HCI_CONN_INTERVAL_UNACCEPTABLE\<close> for the reason of that name, and
  \<^verbatim>\<open>BLE_HCI_REMOTE_USER_TERMINATED_CONNECTION\<close> again for any other reason. So the code
  is one of the two for every reason.
\<close>

theorem disconnect_reason_code:
  "map call (trace (disconnect h sd this REMOTE_USER_TERMINATED_CONNECTION)) =
     [DISCONNECT (m_connectionHandle this) (BLE_HCI_REMOTE_USER_TERMINATED_CONNECTION h)]
   \<and> map call (trace (disconnect h sd this CONN_INTERVAL_UNACCEPTABLE)) =
     [DISCONNECT (m_connectionHandle this) (BLE_HCI_CONN_INTERVAL_UNACCEPTABLE h)]
   \<and> map call (trace (disconnect h sd this (OTHER_DISCONNECTION_REASON n))) =
     [DISCONNECT (m_connectionHandle this) (BLE_HCI_REMOTE_USER_TERMINATED_CONNECTION h)]
   \<and> (map call (trace (disconnect h sd this reason)) =
        [DISCONNECT (m_connectionHandle this) (BLE_HCI_REMOTE_USER_TERMINATED_CONNECTION h)]
      \<or> map call (trace (disconnect h sd this reason)) =
        [DISCONNECT (m_connectionHandle this) (BLE_HCI_CONN_INTERVAL_UNACCEPTABLE h)])"
  by (cases reason) (simp_all add: disconnect_def Let_def)

section \<open>Device identity\<close>

text \<open>
  The guard of \<^verbatim>\<open>setAddress\<close> refuses every type that is greater, as a signed number,
  than the last of the four address types: the object is unchanged and the SoftDevice is
  not called. Each of the four types reaches the SoftDevice with one call.
\<close>

lemma setAddress_rejects_above_last_type:
  "3 < sint type \<Longrightarrow>
   setAddress h sd this type address =
     \<lparr>ret = BLE_ERROR_PARAM_OUT_OF_RANGE, self = this, trace = []\<rparr>"
  by (simp add: setAddress_def ADDR_TYPE_RANDOM_PRIVATE_NON_RESOLVABLE_def)

lemma setAddress_forwards_defined_type:
  "type \<in> {ADDR_TYPE_PUBLIC, ADDR_TYPE_RANDOM_STATIC, ADDR_TYPE_RANDOM_PRIVATE_RESOLVABLE,
            ADDR_TYPE_RANDOM_PRIVATE_NON_RESOLVABLE} \<Longrightarrow>
   map call (trace (setAddress h sd this type address)) =
     [ADDRESS_SET (BLE_GAP_ADDR_CYCLE_MODE_NONE h)
        \<lparr>addr_type = ucast type, addr = take ADDR_LEN address\<rparr>]"
  by (auto simp: setAddress_def Let_def ADDR_TYPE_PUBLIC_def ADDR_TYPE_RANDOM_STATIC_def
        ADDR_TYPE_RANDOM_PRIVATE_RESOLVABLE_def ADDR_TYPE_RANDOM_PRIVATE_NON_RESOLVABLE_def)

text \<open>
  A type that is negative as a signed number is none of the four and yet passes the
  guard: the SoftDevice is called with the low byte of it.
\<close>

lemma setAddress_forwards_negative_type:
  "sint type < 0 \<Longrightarrow>
   type \<notin> {ADDR_TYPE_PUBLIC, ADDR_TYPE_RANDOM_STATIC, ADDR_TYPE_RANDOM_PRIVATE_RESOLVABLE,
            ADDR_TYPE_RANDOM_PRIVATE_NON_RESOLVABLE}
   \<and> map call (trace (setAddress h sd this type address)) =
       [ADDRESS_SET (BLE_GAP_ADDR_CYCLE_MODE_NONE h)
          \<lparr>addr_type = ucast type, addr = take ADDR_LEN address\<rparr>]"
  by (auto simp: setAddress_def Let_def ADDR_TYPE_PUBLIC_def ADDR_TYPE_RANDOM_STATIC_def
        ADDR_TYPE_RANDOM_PRIVATE_RESOLVABLE_def ADDR_TYPE_RANDOM_PRIVATE_NON_RESOLVABLE_def)


text \<open>
  \<^verbatim>\<open>setAppearance\<close> compares the status with \<^verbatim>\<open>NRF_SUCCESS\<close>: it returns
  \<^verbatim>\<open>BLE_ERROR_NONE\<close> exactly on that status and never touches the object.
\<close>

lemma setAppearance_forwards:
  "setAppearance h sd this a =
     \<lparr>ret = (if sd_ble_gap_appearance_set sd a = NRF_SUCCESS h then BLE_ERROR_NONE
             else BLE_ERROR_PARAM_OUT_OF_RANGE),
      self = this,
      trace = [\<lparr>seen = this, call = APPEARANCE_SET a, status = sd_ble_gap_appearance_set sd a\<rparr>]\<rparr>"
  by (simp add: setAppearance_def Let_def)

text \<open>
  \<^verbatim>\<open>getAppearance\<close> tests the status itself, not its equality with \<^verbatim>\<open>NRF_SUCCESS\<close>.
  Whatever value the headers give \<^verbatim>\<open>NRF_SUCCESS\<close>, some status makes the method answer
  the opposite of what the SoftDevice reported.
\<close>

lemma getAppearance_wrong_for_every_success_code:
  "\<exists>rc. (ret (fst (getAppearance h (sd\<lparr>sd_ble_gap_appearance_get := (rc, v)\<rparr>) this))
            = BLE_ERROR_NONE)
         \<noteq> (rc = NRF_SUCCESS h)"
proof (cases "NRF_SUCCESS h = 0")
  case True
  then show ?thesis
    by (intro exI [of _ 0]) (simp add: getAppearance_def Let_def)
next
  case False
  show ?thesis
  proof (cases "NRF_SUCCESS h = 1")
    case True
    then show ?thesis
      by (intro exI [of _ 2]) (simp add: getAppearance_def Let_def)
  next
    case False
    then show ?thesis
      by (intro exI [of _ 1]) (simp add: getAppearance_def Let_def)
  qed
qed

text \<open>
  Claim C8 fails for \<^verbatim>\<open>getAppearance\<close>. With \<^verbatim>\<open>NRF_SUCCESS\<close> being 0, as in the
  SoftDevice headers: when \<^verbatim>\<open>sd_ble_gap_appearance_get\<close> reports success and stores the
  appearance 0x0341, the method returns \<^verbatim>\<open>BLE_ERROR_PARAM_OUT_OF_RANGE\<close>; when it
  reports the error 7, the method returns \<^verbatim>\<open>BLE_ERROR_NONE\<close>. The object is untouched
  in both runs.
\<close>

theorem getAppearance_inverts_status:
  "getAppearance nrf51_sdk
     ((sd_all 0)\<lparr>sd_ble_gap_appearance_get := (NRF_SUCCESS nrf51_sdk, Some 0x0341)\<rparr>)
     (gap_at False False)
   = (\<lparr>ret = BLE_ERROR_PARAM_OUT_OF_RANGE, self = gap_at False False,
       trace = [\<lparr>seen = gap_at False False, call = APPEARANCE_GET,
                 status = NRF_SUCCESS nrf51_sdk\<rparr>]\<rparr>, Some 0x0341)
   \<and> ret (fst (getAppearance nrf51_sdk ((sd_all 0)\<lparr>sd_ble_gap_appearance_get := (7, None)\<rparr>)
         (gap_at False False)))
     = BLE_ERROR_NONE
   \<and> (7 :: 32 word) \<noteq> NRF_SUCCESS nrf51_sdk"
  by (simp add: getAppearance_def nrf51_sdk_def sd_all_def Let_def)

end
